theory Spec2Isabelle
  imports Complex_Main
begin

section \<open>The Deterministic Policy Gradient loss of trfl (\<^verbatim>\<open>trfl/dpg_ops.py\<close>)\<close>

text \<open>
  The module holds one function, \<^verbatim>\<open>dpg\<close>, which builds the actor loss of the
  Deterministic Policy Gradient algorithm out of TensorFlow operations. The embedding
  follows the function line by line. Four modelling decisions are fixed here.

  \<^item> Arithmetic is floating-point arithmetic. A component of a tensor is a real number,
    namely the finite value that the floating-point number denotes, and every
    arithmetic operation on tensors rounds its exact result with a rounding function
    \<open>rnd\<close>, a parameter of the model. \<open>float32\<close> below is the rounding of TensorFlow's
    default type; \<open>exact\<close> is arithmetic without rounding. Infinities and NaN are not
    values of the model: the specification leaves overflow and NaN to the caller. An
    operation that overflows is in any case not exact, and what is proved below of
    rounded results is proved of the rows on which the operations are exact.
  \<^item> A tensor carries, next to its value, its tangent: the derivative of every
    component with respect to one trainable parameter of the surrounding graph, as
    the chain rule gives it at the computed values. Every operation propagates the
    tangent by its derivative rule, \<^verbatim>\<open>tf.stop_gradient\<close> sets it to zero. The tangent of
    the loss is what a later differentiation of the loss yields. The tangent is the
    derivative itself: how the engine rounds while it computes derivatives is not
    modelled.
  \<^item> The clip magnitude is a number of the floating-point type of the tensors.
    TensorFlow converts a Python number to that type before it uses it; the conversion
    is not modelled.
  \<^item> The reverse-mode differentiation engine is not part of the module. The call
    \<^verbatim>\<open>tf.gradients([q_max], [a_max])[0]\<close> is a parameter of the model: a function that
    returns \<open>None\<close> when \<^verbatim>\<open>q_max\<close> has no differentiable dependency on \<^verbatim>\<open>a_max\<close>, and the
    gradient tensor otherwise.
\<close>

subsection \<open>Floating-point rounding\<close>

type_synonym rounding = "real \<Rightarrow> real"

text \<open>Arithmetic without rounding.\<close>

definition exact :: rounding where
  "exact x = x"

text \<open>IEEE 754 single precision, round to nearest, ties to even. \<open>quantum n y u\<close> scales
  \<open>y > 0\<close> into \<open>[1, 2)\<close> in at most \<open>n\<close> steps and scales the spacing \<open>u\<close> along with it, so
  that from \<open>u = 1 / 2 ^ 23\<close> it returns the spacing of the floating-point numbers around
  \<open>y\<close> (24 significant bits). The spacing is at least \<open>1 / 2 ^ 149\<close>, the spacing of the
  subnormal numbers. A result beyond the largest finite number would be an infinity and is
  outside the model.\<close>

fun quantum :: "nat \<Rightarrow> real \<Rightarrow> real \<Rightarrow> real" where
  "quantum 0 y u = u"
| "quantum (Suc n) y u =
     (if 2 \<le> y then quantum n (y / 2) (u * 2)
      else if y < 1 then quantum n (y * 2) (u / 2)
      else u)"

definition round_half_even :: "real \<Rightarrow> int" where
  "round_half_even r =
     (let f = \<lfloor>r\<rfloor> in
      if r - of_int f < 1 / 2 then f
      else if 1 / 2 < r - of_int f then f + 1
      else if even f then f else f + 1)"

definition float32 :: rounding where
  "float32 x =
     (if x = 0 then 0
      else let u = max (quantum 300 \<bar>x\<bar> (1 / 2 ^ 23)) (1 / 2 ^ 149)
           in u * of_int (round_half_even (x / u)))"

subsection \<open>Tensors\<close>

record 'v tensor =
  val :: 'v
  tangent :: 'v

text \<open>Shape \<open>[B]\<close>: one number per batch element. Shape \<open>[B, A]\<close>: one row per batch
  element, one number per action dimension.\<close>

type_synonym tensor1 = "real list tensor"
type_synonym tensor2 = "real list list tensor"

definition same_shape :: "real list list \<Rightarrow> real list list \<Rightarrow> bool" where
  "same_shape xs ys = (map length xs = map length ys)"

subsection \<open>The TensorFlow operations that \<^verbatim>\<open>dpg\<close> calls\<close>

text \<open>\<^verbatim>\<open>x + y\<close> and \<^verbatim>\<open>x - y\<close> on two tensors of one shape, component by component, each
  result rounded. (Broadcasting of unequal shapes is not modelled: the gradient that
  \<^verbatim>\<open>tf.gradients\<close> returns has the shape of \<^verbatim>\<open>a_max\<close>.)\<close>

definition tensor_add :: "rounding \<Rightarrow> tensor2 \<Rightarrow> tensor2 \<Rightarrow> tensor2" where
  "tensor_add rnd x y =
     \<lparr>val = map2 (map2 (\<lambda>u v. rnd (u + v))) (val x) (val y),
      tangent = map2 (map2 (+)) (tangent x) (tangent y)\<rparr>"

definition tensor_sub :: "rounding \<Rightarrow> tensor2 \<Rightarrow> tensor2 \<Rightarrow> tensor2" where
  "tensor_sub rnd x y =
     \<lparr>val = map2 (map2 (\<lambda>u v. rnd (u - v))) (val x) (val y),
      tangent = map2 (map2 (-)) (tangent x) (tangent y)\<rparr>"

text \<open>\<^verbatim>\<open>c * x\<close> for a Python number \<open>c\<close> and a tensor \<open>x\<close> of shape \<open>[B]\<close>. (The only such
  number in \<^verbatim>\<open>dpg\<close> is \<open>0.5\<close>, which every binary floating-point type represents.)\<close>

definition scalar_mul :: "rounding \<Rightarrow> real \<Rightarrow> tensor1 \<Rightarrow> tensor1" where
  "scalar_mul rnd c x =
     \<lparr>val = map (\<lambda>v. rnd (c * v)) (val x), tangent = map (\<lambda>v'. c * v') (tangent x)\<rparr>"

text \<open>\<^verbatim>\<open>tf.square\<close>: the square of every component; its derivative is \<open>2 * v\<close>.\<close>

definition tf_square :: "rounding \<Rightarrow> tensor2 \<Rightarrow> tensor2" where
  "tf_square rnd x =
     \<lparr>val = map (map (\<lambda>v. rnd (v * v))) (val x),
      tangent = map2 (map2 (\<lambda>v v'. 2 * v * v')) (val x) (tangent x)\<rparr>"

text \<open>\<^verbatim>\<open>tf.reduce_sum(x, axis=-1)\<close>: the sum of every row, accumulated from \<open>0\<close> with every
  partial sum rounded. (The order of accumulation is the engine's; here it is from
  left to right.)\<close>

definition fsum :: "rounding \<Rightarrow> real list \<Rightarrow> real" where
  "fsum rnd xs = foldl (\<lambda>s v. rnd (s + v)) 0 xs"

definition tf_reduce_sum :: "rounding \<Rightarrow> tensor2 \<Rightarrow> tensor1" where
  "tf_reduce_sum rnd x = \<lparr>val = map (fsum rnd) (val x), tangent = map sum_list (tangent x)\<rparr>"

text \<open>\<^verbatim>\<open>tf.stop_gradient\<close>: the same value, treated as a constant by differentiation: the
  tangent is zero.\<close>

definition tf_stop_gradient :: "tensor2 \<Rightarrow> tensor2" where
  "tf_stop_gradient x = \<lparr>val = val x, tangent = map (map (\<lambda>v. 0)) (val x)\<rparr>"

text \<open>\<^verbatim>\<open>tf.clip_by_value(t, lo, hi)\<close>: TensorFlow computes
  \<^verbatim>\<open>maximum(minimum(t, hi), lo)\<close> on every component; minimum and maximum do not round.
  The derivative passes through a component that lies within the bounds and is zero
  for a component that was cut. The bounds are numbers of the tensor's floating-point
  type: TensorFlow first converts a Python number to that type, and this conversion
  is not modelled.\<close>

definition clip_value :: "real \<Rightarrow> real \<Rightarrow> real \<Rightarrow> real" where
  "clip_value lo hi v = max (min v hi) lo"

definition tf_clip_by_value :: "tensor2 \<Rightarrow> real \<Rightarrow> real \<Rightarrow> tensor2" where
  "tf_clip_by_value t lo hi =
     \<lparr>val = map (map (clip_value lo hi)) (val t),
      tangent = map2 (map2 (\<lambda>v v'. if lo \<le> v \<and> v \<le> hi then v' else 0)) (val t) (tangent t)\<rparr>"

text \<open>\<^verbatim>\<open>tf.clip_by_norm(t, clip_norm, axes=-1)\<close>: with the L2 norm taken along the last
  axis, TensorFlow computes \<^verbatim>\<open>t * clip_norm / maximum(l2norm, clip_norm)\<close>, row by row,
  where \<^verbatim>\<open>l2norm = sqrt(reduce_sum(t * t))\<close>; every product, sum, square root and quotient
  is rounded. The tangent follows from the derivative rules of these operations
  (\<^verbatim>\<open>maximum\<close> passes the derivative of the norm on when the norm is the larger
  argument).\<close>

definition l2norm :: "rounding \<Rightarrow> real list \<Rightarrow> real" where
  "l2norm rnd row = rnd (sqrt (fsum rnd (map (\<lambda>v. rnd (v * v)) row)))"

definition clip_row_by_norm :: "rounding \<Rightarrow> real \<Rightarrow> real list \<Rightarrow> real list" where
  "clip_row_by_norm rnd c row = map (\<lambda>v. rnd (rnd (v * c) / max (l2norm rnd row) c)) row"

definition clip_row_by_norm_tan :: "rounding \<Rightarrow> real \<Rightarrow> real list \<Rightarrow> real list \<Rightarrow> real list" where
  "clip_row_by_norm_tan rnd c row row' =
     (let n = l2norm rnd row;
          m = max n c;
          n' = (if 0 < n then (\<Sum>(v, v') \<leftarrow> zip row row'. v * v') / n else 0);
          m' = (if c \<le> n then n' else 0)
      in map2 (\<lambda>v v'. (v' * c * m - v * c * m') / (m * m)) row row')"

definition tf_clip_by_norm :: "rounding \<Rightarrow> tensor2 \<Rightarrow> real \<Rightarrow> tensor2" where
  "tf_clip_by_norm rnd t c =
     \<lparr>val = map (clip_row_by_norm rnd c) (val t),
      tangent = map2 (clip_row_by_norm_tan rnd c) (val t) (tangent t)\<rparr>"

subsection \<open>Results and errors\<close>

text \<open>\<^verbatim>\<open>DPGExtra = collections.namedtuple("dpg_extra", ["q_max", "a_max", "dqda"])\<close>\<close>

record DPGExtra =
  q_max :: tensor1
  a_max :: tensor2
  dqda :: tensor2

text \<open>Modelled from the spec: \<^verbatim>\<open>base_ops.LossOutput\<close>, whose declaration is in another
  module. It is the pair that \<^verbatim>\<open>dpg\<close> returns, the loss vector and the auxiliary record;
  the docstring of \<^verbatim>\<open>dpg\<close> names the two fields \<^verbatim>\<open>loss\<close> and \<^verbatim>\<open>extra\<close>.\<close>

record LossOutput =
  loss :: tensor1
  extra :: DPGExtra

text \<open>Both failures of \<^verbatim>\<open>dpg\<close> are a Python \<^verbatim>\<open>ValueError\<close>; they differ in the message.
  The message is kept as the format string of the source and the list of numbers that
  \<^verbatim>\<open>.format\<close> substitutes for its placeholders.\<close>

datatype error = ValueError string "real list"

definition no_dependency_error :: error where
  "no_dependency_error = ValueError ''q_max needs to be a function of a_max'' []"

definition clipping_error :: "real \<Rightarrow> error" where
  "clipping_error c = ValueError ''dqda_clipping should be bigger than 0, {} found'' [c]"

subsection \<open>\<^verbatim>\<open>dpg\<close>\<close>

text \<open>Lines 78 to 85, the clipping of the gradient: no clipping when \<^verbatim>\<open>dqda_clipping\<close> is
  \<^verbatim>\<open>None\<close>, an error when it is not positive, and otherwise clipping by norm or by value
  as \<^verbatim>\<open>clip_norm\<close> says.\<close>

definition clip_dqda :: "rounding \<Rightarrow> tensor2 \<Rightarrow> real option \<Rightarrow> bool \<Rightarrow> error + tensor2" where
  "clip_dqda rnd dqda0 dqda_clipping clip_norm =
     (case dqda_clipping of
        None \<Rightarrow> Inr dqda0
      | Some c \<Rightarrow>
          if c \<le> 0 then Inl (clipping_error c)
          else if clip_norm then Inr (tf_clip_by_norm rnd dqda0 c)
          else Inr (tf_clip_by_value dqda0 (-1 * c) c))"

text \<open>Lines 87 to 94, the loss and the returned pair.\<close>

definition dpg_loss :: "rounding \<Rightarrow> tensor1 \<Rightarrow> tensor2 \<Rightarrow> tensor2 \<Rightarrow> LossOutput" where
  "dpg_loss rnd q_max' a_max' dqda' =
     (let target_a = tensor_add rnd dqda' a_max';
          target_a = tf_stop_gradient target_a;
          loss' = scalar_mul rnd 0.5
                    (tf_reduce_sum rnd (tf_square rnd (tensor_sub rnd target_a a_max')))
      in \<lparr>loss = loss', extra = \<lparr>q_max = q_max', a_max = a_max', dqda = dqda'\<rparr>\<rparr>)"

text \<open>The whole function. \<open>gradients\<close> stands for \<^verbatim>\<open>tf.gradients([q_max], [a_max])[0]\<close>.
  The \<^verbatim>\<open>name\<close> argument only prefixes the names of the graph operations and is left out.\<close>

definition dpg ::
  "rounding \<Rightarrow> (tensor1 \<Rightarrow> tensor2 \<Rightarrow> tensor2 option) \<Rightarrow> tensor1 \<Rightarrow> tensor2 \<Rightarrow>
     real option \<Rightarrow> bool \<Rightarrow> error + LossOutput" where
  "dpg rnd gradients q_max' a_max' dqda_clipping clip_norm =
     (case gradients q_max' a_max' of
        None \<Rightarrow> Inl no_dependency_error
      | Some dqda0 \<Rightarrow>
          (case clip_dqda rnd dqda0 dqda_clipping clip_norm of
             Inl e \<Rightarrow> Inl e
           | Inr dqda1 \<Rightarrow> Inr (dpg_loss rnd q_max' a_max' dqda1)))"

subsection \<open>Notions of the specification\<close>


text \<open>One half of the sum of the squares of a row, evaluated in the arithmetic of the
  tensors: what \<^verbatim>\<open>0.5 * tf.reduce_sum(tf.square(row))\<close> gives.\<close>

definition half_squared_norm :: "rounding \<Rightarrow> real list \<Rightarrow> real" where
  "half_squared_norm rnd row = rnd (0.5 * fsum rnd (map (\<lambda>v. rnd (v * v)) row))"


text \<open>Two differentiation engines that ignore their arguments: one that always finds the
  given gradient, one that never finds a dependency.\<close>

definition const_gradients :: "tensor2 \<Rightarrow> tensor1 \<Rightarrow> tensor2 \<Rightarrow> tensor2 option" where
  "const_gradients g q a = Some g"

definition no_gradients :: "tensor1 \<Rightarrow> tensor2 \<Rightarrow> tensor2 option" where
  "no_gradients q a = None"

text \<open>The example of the specification: the value estimate is minus the squared norm of
  the candidate action. For this value estimate the differentiation engine returns
  the gradient \<open>-2 * a\<close>; the lemma \<open>neg_sqnorm_partial_derivatives\<close> below shows that
  these are the partial derivatives.\<close>

definition neg_sqnorm :: "real list \<Rightarrow> real" where
  "neg_sqnorm row = - (\<Sum>v\<leftarrow>row. v\<^sup>2)"

definition neg_sqnorm_gradients :: "rounding \<Rightarrow> tensor1 \<Rightarrow> tensor2 \<Rightarrow> tensor2 option" where
  "neg_sqnorm_gradients rnd q a =
     Some \<lparr>val = map (map (\<lambda>v. rnd (-2 * v))) (val a),
           tangent = map (map (\<lambda>v'. -2 * v')) (tangent a)\<rparr>"

section \<open>Auxiliary facts\<close>

subsection \<open>Evaluating the rounding\<close>

lemma quantum_numeral:
  "quantum (numeral k) y u =
     (if 2 \<le> y then quantum (pred_numeral k) (y / 2) (u * 2)
      else if y < 1 then quantum (pred_numeral k) (y * 2) (u / 2)
      else u)"
  by (simp add: numeral_eq_Suc)

lemmas float32_eval = float32_def quantum_numeral round_half_even_def Let_def

lemma fsum_exact: "fsum exact xs = sum_list xs"
proof -
  have "foldl (\<lambda>s v. s + v) s xs = s + sum_list xs" for s :: real
    by (induction xs arbitrary: s) simp_all
  then show ?thesis
    by (simp add: fsum_def exact_def)
qed


lemma half_squared_norm_exact: "half_squared_norm exact row = 0.5 * (\<Sum>v\<leftarrow>row. v\<^sup>2)"
  by (simp add: half_squared_norm_def fsum_exact power2_eq_square) (simp add: exact_def)



subsection \<open>The loss\<close>

lemma map2_map2_left:
  "map2 f (map2 g xs ys) ys = map2 (\<lambda>x y. f (g x y) y) xs ys"
proof (induction xs arbitrary: ys)
  case Nil
  then show ?case by simp
next
  case (Cons x xs)
  then show ?case by (cases ys) simp_all
qed

lemma val_target_minus_a_max:
  "val (tensor_sub rnd (tf_stop_gradient (tensor_add rnd d a)) a) =
     map2 (map2 (\<lambda>u v. rnd (rnd (u + v) - v))) (val d) (val a)"
  by (simp add: tensor_sub_def tensor_add_def tf_stop_gradient_def map2_map2_left)

lemma val_loss_of_difference:
  "val (scalar_mul rnd 0.5 (tf_reduce_sum rnd (tf_square rnd t))) =
     map (half_squared_norm rnd) (val t)"
  by (simp add: scalar_mul_def tf_reduce_sum_def tf_square_def half_squared_norm_def o_def)

lemma val_dpg_loss:
  "val (loss (dpg_loss rnd q a d)) =
     map (half_squared_norm rnd) (map2 (map2 (\<lambda>u v. rnd (rnd (u + v) - v))) (val d) (val a))"
  by (simp only: dpg_loss_def Let_def LossOutput.simps val_loss_of_difference
      val_target_minus_a_max)

lemma extra_dpg_loss:
  "extra (dpg_loss rnd q a d) = \<lparr>q_max = q, a_max = a, dqda = d\<rparr>"
  by (simp add: dpg_loss_def Let_def)

lemma row_tangent:
  fixes ds as as' :: "real list"
  shows "0.5 * sum_list (map2 (\<lambda>v v'. 2 * v * v')
            (map2 (\<lambda>u v. rnd (rnd (u + v) - v)) ds as)
            (map2 (-) (map (\<lambda>v. 0) (map2 (\<lambda>u v. rnd (u + v)) ds as)) as')) =
   - (\<Sum>(x, a') \<leftarrow> zip (map2 (\<lambda>u v. rnd (rnd (u + v) - v)) ds as) as'. x * a')"
proof (induction ds arbitrary: as as')
  case Nil
  then show ?case by simp
next
  case (Cons d ds)
  show ?case
  proof (cases as)
    case Nil
    then show ?thesis by simp
  next
    case as: (Cons x xs)
    show ?thesis
    proof (cases as')
      case Nil
      then show ?thesis by (simp add: as)
    next
      case (Cons x' xs')
      with Cons.IH [of xs xs'] as show ?thesis
        by (simp add: algebra_simps)
    qed
  qed
qed

lemma tangent_dpg_loss:
  "tangent (loss (dpg_loss rnd q a d)) =
     map2 (\<lambda>xs as'. - (\<Sum>(x, a') \<leftarrow> zip xs as'. x * a'))
       (map2 (map2 (\<lambda>u v. rnd (rnd (u + v) - v))) (val d) (val a)) (tangent a)"
proof -
  have "map (\<lambda>r. 0.5 * r) (map sum_list (map2 (map2 (\<lambda>v v'. 2 * v * v'))
            (map2 (map2 (\<lambda>u v. rnd (rnd (u + v) - v))) dss ass)
            (map2 (map2 (-)) (map (map (\<lambda>v. 0)) (map2 (map2 (\<lambda>u v. rnd (u + v))) dss ass)) ass'))) =
        map2 (\<lambda>xs as'. - (\<Sum>(x, a') \<leftarrow> zip xs as'. x * a'))
          (map2 (map2 (\<lambda>u v. rnd (rnd (u + v) - v))) dss ass) ass'"
    for dss ass ass' :: "real list list"
  proof (induction dss arbitrary: ass ass')
    case Nil
    then show ?case by simp
  next
    case (Cons ds dss)
    show ?case
    proof (cases ass)
      case Nil
      then show ?thesis by simp
    next
      case ass: (Cons xs xss)
      show ?thesis
      proof (cases ass')
        case Nil
        then show ?thesis by (simp add: ass)
      next
        case (Cons xs' xss')
        with Cons.IH [of xss xss'] ass row_tangent [of rnd ds xs xs'] show ?thesis
          by simp
      qed
    qed
  qed
  then show ?thesis
    by (simp add: dpg_loss_def Let_def scalar_mul_def tf_reduce_sum_def tf_square_def
        tensor_sub_def tensor_add_def tf_stop_gradient_def map2_map2_left)
qed


subsection \<open>Clipping\<close>

lemma val_clip_by_value: "val (tf_clip_by_value t lo hi) = map (map (clip_value lo hi)) (val t)"
  by (simp add: tf_clip_by_value_def)

lemma val_clip_by_norm: "val (tf_clip_by_norm rnd t c) = map (clip_row_by_norm rnd c) (val t)"
  by (simp add: tf_clip_by_norm_def)

lemma val_clip_dqda:
  "clip_dqda rnd g c cn = Inr d \<Longrightarrow> val g' = val g \<Longrightarrow>
   \<exists>d'. clip_dqda rnd g' c cn = Inr d' \<and> val d' = val d"
  by (auto simp: clip_dqda_def val_clip_by_value val_clip_by_norm split: option.splits if_splits)

lemma clip_dqda_shape:
  "clip_dqda rnd g c cn = Inr d \<Longrightarrow> same_shape (val d) ys = same_shape (val g) ys"
  by (auto simp: clip_dqda_def same_shape_def val_clip_by_value val_clip_by_norm
      clip_row_by_norm_def o_def split: option.splits if_splits)











subsection \<open>Outcomes of \<^verbatim>\<open>dpg\<close>\<close>

lemma dpg_Inr_iff:
  "dpg rnd gradients q a c cn = Inr out \<longleftrightarrow>
     (\<exists>g d. gradients q a = Some g \<and> clip_dqda rnd g c cn = Inr d \<and> out = dpg_loss rnd q a d)"
  by (auto simp: dpg_def split: option.splits sum.splits)

lemma dpg_None:
  "gradients q a = None \<Longrightarrow> dpg rnd gradients q a c cn = Inl no_dependency_error"
  by (simp add: dpg_def)

lemma dpg_Some:
  "gradients q a = Some g \<Longrightarrow>
   dpg rnd gradients q a c cn = map_sum id (dpg_loss rnd q a) (clip_dqda rnd g c cn)"
  by (simp add: dpg_def split: sum.splits)

subsection \<open>The example value estimate\<close>

lemma neg_sqnorm_partial_derivatives:
  "((\<lambda>x. neg_sqnorm [x, y]) has_real_derivative (-2 * x)) (at x)"
  "((\<lambda>y. neg_sqnorm [x, y]) has_real_derivative (-2 * y)) (at y)"
  by (auto intro!: derivative_eq_intros simp: neg_sqnorm_def)

subsection \<open>Evaluating \<^verbatim>\<open>dpg\<close>\<close>

lemmas run_simps = dpg_def clip_dqda_def const_gradients_def

lemmas loss_simps = dpg_loss_def Let_def tensor_add_def tensor_sub_def tf_stop_gradient_def
  tf_square_def tf_reduce_sum_def fsum_def scalar_mul_def

text \<open>In arithmetic without rounding the loss is one half of the squared norm of the
  returned gradient.\<close>

lemma exact_round_trip_row:
  "length xs = length ys \<Longrightarrow> map2 (\<lambda>u v. exact (exact (u + v) - v)) xs ys = xs"
  by (induction xs ys rule: list_induct2) (simp_all add: exact_def)

lemma exact_round_trip:
  "same_shape xss yss \<Longrightarrow> map2 (map2 (\<lambda>u v. exact (exact (u + v) - v))) xss yss = xss"
proof (induction xss arbitrary: yss)
  case Nil
  then show ?case by simp
next
  case (Cons xs xss)
  then obtain ys yss' where y: "yss = ys # yss'"
    by (cases yss) (simp_all add: same_shape_def)
  with Cons.prems have "length xs = length ys" and "same_shape xss yss'"
    by (simp_all add: same_shape_def)
  with Cons.IH y show ?case
    by (simp add: exact_round_trip_row)
qed

lemma loss_in_exact_arithmetic:
  assumes "gradients q a = Some g" and "same_shape (val g) (val a)"
    and "dpg exact gradients q a c cn = Inr out"
  shows "val (loss out) = map (\<lambda>row. 0.5 * (\<Sum>v\<leftarrow>row. v\<^sup>2)) (val (dqda (extra out)))"
proof -
  from assms(1,3) obtain d where d: "clip_dqda exact g c cn = Inr d"
    and out: "out = dpg_loss exact q a d"
    by (auto simp: dpg_Inr_iff)
  from d assms(2) have "same_shape (val d) (val a)"
    by (simp add: clip_dqda_shape)
  then have "map2 (map2 (\<lambda>u v. exact (exact (u + v) - v))) (val d) (val a) = val d"
    by (rule exact_round_trip)
  then have "val (loss out) = map (half_squared_norm exact) (val d)"
    by (simp add: out val_dpg_loss)
  also have "\<dots> = map (\<lambda>row. 0.5 * (\<Sum>v\<leftarrow>row. v\<^sup>2)) (val d)"
    by (rule map_cong [OF refl]) (rule half_squared_norm_exact)
  finally show ?thesis
    by (simp add: out extra_dpg_loss)
qed

section \<open>The claims\<close>




text \<open>Claim C2. When \<^verbatim>\<open>q_max\<close> has no differentiable dependency on \<^verbatim>\<open>a_max\<close>, so that
  \<^verbatim>\<open>tf.gradients\<close> returns \<^verbatim>\<open>None\<close>, the function raises the error whose message says that
  \<^verbatim>\<open>q_max\<close> needs to be a function of \<^verbatim>\<open>a_max\<close>, whatever the clipping arguments are, and it
  returns no loss.\<close>

theorem dpg_no_dependency_raises:
  assumes "gradients q a = None"
  shows "dpg rnd gradients q a dqda_clipping clip_norm =
           Inl (ValueError ''q_max needs to be a function of a_max'' [])
         \<and> (\<nexists>out. dpg rnd gradients q a dqda_clipping clip_norm = Inr out)"
  using assms by (simp add: dpg_None no_dependency_error_def)

theorem dpg_no_dependency_raises_witness:
  "no_gradients \<lparr>val = [3], tangent = [5]\<rparr> \<lparr>val = [[1, 1]], tangent = [[1, 0]]\<rparr> = None
   \<and> dpg float32 no_gradients \<lparr>val = [3], tangent = [5]\<rparr> \<lparr>val = [[1, 1]], tangent = [[1, 0]]\<rparr>
        (Some 1) True
      = Inl (ValueError ''q_max needs to be a function of a_max'' [])
   \<and> (\<nexists>out. dpg float32 no_gradients \<lparr>val = [3], tangent = [5]\<rparr>
          \<lparr>val = [[1, 1]], tangent = [[1, 0]]\<rparr> (Some 1) True = Inr out)"
  using dpg_no_dependency_raises [of no_gradients "\<lparr>val = [3], tangent = [5]\<rparr>"
      "\<lparr>val = [[1, 1]], tangent = [[1, 0]]\<rparr>" float32 "Some 1" True]
  by (simp add: no_gradients_def)

text \<open>Claim C3. When the gradient is defined and a clip magnitude \<open>c \<le> 0\<close> is supplied, the
  function raises the error whose message says that \<^verbatim>\<open>dqda_clipping\<close> should be bigger than
  \<open>0\<close>, in both clipping modes.\<close>

theorem dpg_nonpositive_clipping_raises:
  assumes "gradients q a = Some g" and "c \<le> 0"
  shows "dpg rnd gradients q a (Some c) True =
           Inl (ValueError ''dqda_clipping should be bigger than 0, {} found'' [c])
         \<and> dpg rnd gradients q a (Some c) False =
           Inl (ValueError ''dqda_clipping should be bigger than 0, {} found'' [c])"
  using assms by (simp add: dpg_Some clip_dqda_def clipping_error_def)

theorem dpg_nonpositive_clipping_raises_witness:
  "const_gradients \<lparr>val = [[3, 4]], tangent = [[7, 9]]\<rparr>
       \<lparr>val = [3], tangent = [5]\<rparr> \<lparr>val = [[1, 1]], tangent = [[1, 0]]\<rparr>
     = Some \<lparr>val = [[3, 4]], tangent = [[7, 9]]\<rparr>
   \<and> (0 :: real) \<le> 0
   \<and> dpg float32 (const_gradients \<lparr>val = [[3, 4]], tangent = [[7, 9]]\<rparr>)
        \<lparr>val = [3], tangent = [5]\<rparr> \<lparr>val = [[1, 1]], tangent = [[1, 0]]\<rparr> (Some 0) True
      = Inl (ValueError ''dqda_clipping should be bigger than 0, {} found'' [0])
   \<and> dpg float32 (const_gradients \<lparr>val = [[3, 4]], tangent = [[7, 9]]\<rparr>)
        \<lparr>val = [3], tangent = [5]\<rparr> \<lparr>val = [[1, 1]], tangent = [[1, 0]]\<rparr> (Some 0) False
      = Inl (ValueError ''dqda_clipping should be bigger than 0, {} found'' [0])"
  using dpg_nonpositive_clipping_raises
    [of "const_gradients \<lparr>val = [[3, 4]], tangent = [[7, 9]]\<rparr>"
      "\<lparr>val = [3], tangent = [5]\<rparr>" "\<lparr>val = [[1, 1]], tangent = [[1, 0]]\<rparr>"
      "\<lparr>val = [[3, 4]], tangent = [[7, 9]]\<rparr>" 0 float32]
  by (simp add: const_gradients_def)






text \<open>Claim C6. In every successful call the loss is computed from
  \<^verbatim>\<open>stop_gradient(dqda + a_max)\<close>, whose derivative is zero: the sum is a constant for
  differentiation. The derivative of the loss of batch element \<open>b\<close> is therefore
  minus the sum over the action dimensions of \<open>(target_a - a_max)[b]\<close> times the derivative
  of \<open>a_max[b]\<close>: only the derivative of \<^verbatim>\<open>a_max\<close> enters it. The derivative of the gradient
  \<^verbatim>\<open>dqda\<close> and the tensor \<^verbatim>\<open>q_max\<close>, through which the Q network would be reached, do not:
  another gradient tensor with the same value and any other derivative, and any other
  \<^verbatim>\<open>q_max\<close>, give the same derivative of the loss.\<close>

theorem dpg_loss_gradient_stopped:
  assumes "gradients q a = Some g"
    and "dpg rnd gradients q a dqda_clipping clip_norm = Inr out"
  shows "tangent (tf_stop_gradient (tensor_add rnd (dqda (extra out)) a)) =
           map (map (\<lambda>v. 0)) (val (tensor_add rnd (dqda (extra out)) a))
    \<and> tangent (loss out) =
         map2 (\<lambda>xs as'. - (\<Sum>(x, a') \<leftarrow> zip xs as'. x * a'))
           (map2 (map2 (\<lambda>u v. rnd (rnd (u + v) - v))) (val (dqda (extra out))) (val a))
           (tangent a)
    \<and> (\<forall>q' g' out'. val g' = val g \<longrightarrow>
          dpg rnd (const_gradients g') q' a dqda_clipping clip_norm = Inr out' \<longrightarrow>
          tangent (loss out') = tangent (loss out))"
proof -
  from assms obtain d where d: "clip_dqda rnd g dqda_clipping clip_norm = Inr d"
    and out: "out = dpg_loss rnd q a d"
    by (auto simp: dpg_Inr_iff)
  have stopped: "tangent (tf_stop_gradient (tensor_add rnd (dqda (extra out)) a)) =
      map (map (\<lambda>v. 0)) (val (tensor_add rnd (dqda (extra out)) a))"
    by (simp add: tf_stop_gradient_def)
  have flow: "tangent (loss out) =
      map2 (\<lambda>xs as'. - (\<Sum>(x, a') \<leftarrow> zip xs as'. x * a'))
        (map2 (map2 (\<lambda>u v. rnd (rnd (u + v) - v))) (val (dqda (extra out))) (val a))
        (tangent a)"
    by (simp add: out tangent_dpg_loss extra_dpg_loss)
  have "tangent (loss out') = tangent (loss out)"
    if v: "val g' = val g"
      and run': "dpg rnd (const_gradients g') q' a dqda_clipping clip_norm = Inr out'"
    for q' g' out'
  proof -
    from run' obtain d' where d': "clip_dqda rnd g' dqda_clipping clip_norm = Inr d'"
      and out': "out' = dpg_loss rnd q' a d'"
      by (auto simp: dpg_Inr_iff const_gradients_def)
    from val_clip_dqda [OF d v] d' have "val d' = val d"
      by auto
    then show ?thesis
      by (simp add: out out' tangent_dpg_loss)
  qed
  with stopped flow show ?thesis
    by blast
qed

theorem dpg_loss_gradient_stopped_witness:
  "\<exists>out out'.
       dpg float32 (const_gradients \<lparr>val = [[3, 4]], tangent = [[7, 9]]\<rparr>)
          \<lparr>val = [7], tangent = [5]\<rparr> \<lparr>val = [[1, 1]], tangent = [[1, 0]]\<rparr> None False = Inr out
     \<and> tangent (tf_stop_gradient (tensor_add float32 (dqda (extra out))
          \<lparr>val = [[1, 1]], tangent = [[1, 0]]\<rparr>)) = [[0, 0]]
     \<and> tangent (dqda (extra out)) = [[7, 9]]
     \<and> tangent (loss out) = [- 3]
     \<and> val \<lparr>val = [[3, 4]], tangent = [[100, 200 :: real]]\<rparr> = val \<lparr>val = [[3, 4]], tangent = [[7, 9 :: real]]\<rparr>
     \<and> dpg float32 (const_gradients \<lparr>val = [[3, 4]], tangent = [[100, 200]]\<rparr>)
          \<lparr>val = [8], tangent = [50]\<rparr> \<lparr>val = [[1, 1]], tangent = [[1, 0]]\<rparr> None False = Inr out'
     \<and> tangent (loss out') = tangent (loss out)"
proof -
  let ?g = "\<lparr>val = [[3, 4 :: real]], tangent = [[7, 9]]\<rparr>"
  let ?g' = "\<lparr>val = [[3, 4 :: real]], tangent = [[100, 200]]\<rparr>"
  let ?q = "\<lparr>val = [7 :: real], tangent = [5]\<rparr>"
  let ?q' = "\<lparr>val = [8 :: real], tangent = [50]\<rparr>"
  let ?a = "\<lparr>val = [[1, 1 :: real]], tangent = [[1, 0]]\<rparr>"
  let ?out = "dpg_loss float32 ?q ?a ?g"
  let ?out' = "dpg_loss float32 ?q' ?a ?g'"
  have g: "const_gradients ?g ?q ?a = Some ?g"
    by (simp add: const_gradients_def)
  have run: "dpg float32 (const_gradients ?g) ?q ?a None False = Inr ?out"
    by (simp add: run_simps)
  have run': "dpg float32 (const_gradients ?g') ?q' ?a None False = Inr ?out'"
    by (simp add: run_simps)
  have same: "val ?g' = val ?g"
    by simp
  note inst = dpg_loss_gradient_stopped [OF g run]
  from inst have "tangent (tf_stop_gradient (tensor_add float32 (dqda (extra ?out)) ?a)) =
      map (map (\<lambda>v. 0)) (val (tensor_add float32 (dqda (extra ?out)) ?a))"
    by (rule conjunct1)
  then have stopped: "tangent (tf_stop_gradient (tensor_add float32 (dqda (extra ?out)) ?a)) = [[0, 0]]"
    by (simp add: extra_dpg_loss tensor_add_def)
  from inst have "tangent (loss ?out) =
      map2 (\<lambda>xs as'. - (\<Sum>(x, a') \<leftarrow> zip xs as'. x * a'))
        (map2 (map2 (\<lambda>u v. float32 (float32 (u + v) - v))) (val (dqda (extra ?out))) (val ?a))
        (tangent ?a)"
    by blast
  then have flow: "tangent (loss ?out) = [- 3]"
    by (simp add: extra_dpg_loss float32_eval)
  from inst have "\<forall>q' g' out'. val g' = val ?g \<longrightarrow>
      dpg float32 (const_gradients g') q' ?a None False = Inr out' \<longrightarrow>
      tangent (loss out') = tangent (loss ?out)"
    by blast
  with same run' have indep: "tangent (loss ?out') = tangent (loss ?out)"
    by blast
  have dq: "tangent (dqda (extra ?out)) = [[7, 9]]"
    by (simp add: extra_dpg_loss)
  from run stopped dq flow same run' indep show ?thesis
    by blast
qed

text \<open>Claim C7. The example, in single precision: value estimate minus the squared norm
  of the action, batch size 1, action dimension 2, action \<open>[1, 1]\<close>. Without clipping the
  gradient is \<open>[-2, -2]\<close> and the loss is \<open>4\<close>; with component-wise clipping of magnitude \<open>1\<close>
  the gradient is \<open>[-1, -1]\<close> and the loss is \<open>1\<close>.\<close>

theorem dpg_example_neg_sqnorm:
  "map_sum id (\<lambda>out. (val (dqda (extra out)), val (loss out)))
     (dpg float32 (neg_sqnorm_gradients float32)
        \<lparr>val = map neg_sqnorm [[1, 1]], tangent = [0]\<rparr>
        \<lparr>val = [[1, 1]], tangent = [[0, 0]]\<rparr> None False)
     = Inr ([[- 2, - 2]], [4])
   \<and> map_sum id (\<lambda>out. (val (dqda (extra out)), val (loss out)))
     (dpg float32 (neg_sqnorm_gradients float32)
        \<lparr>val = map neg_sqnorm [[1, 1]], tangent = [0]\<rparr>
        \<lparr>val = [[1, 1]], tangent = [[0, 0]]\<rparr> (Some 1) False)
     = Inr ([[- 1, - 1]], [1])"
  by (simp add: dpg_def neg_sqnorm_gradients_def neg_sqnorm_def clip_dqda_def loss_simps
      tf_clip_by_value_def clip_value_def float32_eval)

text \<open>Claim C8. In every successful call the auxiliary record holds the caller's \<^verbatim>\<open>q_max\<close>
  and \<^verbatim>\<open>a_max\<close> unchanged, and its \<^verbatim>\<open>dqda\<close> is the gradient after the requested clipping: the
  raw gradient without a clip magnitude, the gradient clipped by norm or by value
  otherwise.\<close>

theorem dpg_extra_record:
  assumes "gradients q a = Some g"
    and "dpg rnd gradients q a dqda_clipping clip_norm = Inr out"
  shows "q_max (extra out) = q \<and> a_max (extra out) = a
    \<and> dqda (extra out) =
        (case dqda_clipping of
           None \<Rightarrow> g
         | Some c \<Rightarrow> if clip_norm then tf_clip_by_norm rnd g c else tf_clip_by_value g (-1 * c) c)"
  using assms
  by (auto simp: dpg_Some clip_dqda_def extra_dpg_loss split: option.splits if_splits)

theorem dpg_extra_record_witness:
  "\<exists>out. dpg float32 (const_gradients \<lparr>val = [[3, 4]], tangent = [[7, 9]]\<rparr>)
          \<lparr>val = [7], tangent = [5]\<rparr> \<lparr>val = [[1, 1]], tangent = [[1, 0]]\<rparr> (Some 1) False = Inr out
     \<and> q_max (extra out) = \<lparr>val = [7], tangent = [5]\<rparr>
     \<and> a_max (extra out) = \<lparr>val = [[1, 1]], tangent = [[1, 0]]\<rparr>
     \<and> dqda (extra out) = \<lparr>val = [[1, 1]], tangent = [[0, 0]]\<rparr>
     \<and> val (loss out) = [1]"
proof -
  let ?g = "\<lparr>val = [[3, 4 :: real]], tangent = [[7, 9]]\<rparr>"
  let ?q = "\<lparr>val = [7 :: real], tangent = [5]\<rparr>"
  let ?a = "\<lparr>val = [[1, 1 :: real]], tangent = [[1, 0]]\<rparr>"
  let ?out = "dpg_loss float32 ?q ?a (tf_clip_by_value ?g (-1 * 1) 1)"
  have g: "const_gradients ?g ?q ?a = Some ?g"
    by (simp add: const_gradients_def)
  have run: "dpg float32 (const_gradients ?g) ?q ?a (Some 1) False = Inr ?out"
    by (simp add: run_simps)
  from dpg_extra_record [of "const_gradients ?g" ?q ?a ?g float32 "Some 1" False ?out, OF g run]
  have "q_max (extra ?out) = ?q" and "a_max (extra ?out) = ?a"
    and "dqda (extra ?out) = \<lparr>val = [[1, 1]], tangent = [[0, 0]]\<rparr>"
    by (simp_all add: tf_clip_by_value_def clip_value_def)
  moreover have "val (loss ?out) = [1]"
    by (simp add: loss_simps tf_clip_by_value_def clip_value_def float32_eval)
  ultimately show ?thesis
    using run by blast
qed

text \<open>Claim C9. Without a clip magnitude, the flag \<^verbatim>\<open>clip_norm\<close> has no effect: on the
  same \<^verbatim>\<open>q_max\<close> and \<^verbatim>\<open>a_max\<close> the two calls give the same outcome, loss and auxiliary record
  included.\<close>

theorem dpg_clip_norm_irrelevant_without_clipping:
  "dpg rnd gradients q a None True = dpg rnd gradients q a None False"
  by (cases "gradients q a") (simp_all add: dpg_def clip_dqda_def)

text \<open>Claim C10. The dependency check comes before the validation of the clip magnitude:
  when \<^verbatim>\<open>q_max\<close> does not depend on \<^verbatim>\<open>a_max\<close> and a clip magnitude \<open>c \<le> 0\<close> is supplied, the
  error raised is the one about the missing dependency and not the one about the clip
  magnitude.\<close>

theorem dpg_dependency_checked_first:
  assumes "gradients q a = None" and "c \<le> 0"
  shows "dpg rnd gradients q a (Some c) clip_norm =
           Inl (ValueError ''q_max needs to be a function of a_max'' [])
         \<and> dpg rnd gradients q a (Some c) clip_norm \<noteq>
           Inl (ValueError ''dqda_clipping should be bigger than 0, {} found'' [c])"
  using assms by (simp add: dpg_None no_dependency_error_def)

theorem dpg_dependency_checked_first_witness:
  "no_gradients \<lparr>val = [3], tangent = [5]\<rparr> \<lparr>val = [[1, 1]], tangent = [[1, 0]]\<rparr> = None
   \<and> (-1 :: real) \<le> 0
   \<and> dpg float32 no_gradients \<lparr>val = [3], tangent = [5]\<rparr> \<lparr>val = [[1, 1]], tangent = [[1, 0]]\<rparr>
        (Some (-1)) False
      = Inl (ValueError ''q_max needs to be a function of a_max'' [])
   \<and> dpg float32 no_gradients \<lparr>val = [3], tangent = [5]\<rparr> \<lparr>val = [[1, 1]], tangent = [[1, 0]]\<rparr>
        (Some (-1)) False
      \<noteq> Inl (ValueError ''dqda_clipping should be bigger than 0, {} found'' [-1])"
  using dpg_dependency_checked_first [of no_gradients "\<lparr>val = [3], tangent = [5]\<rparr>"
      "\<lparr>val = [[1, 1]], tangent = [[1, 0]]\<rparr>" "-1" float32 False]
  by (simp add: no_gradients_def)

end
